theory Spec2Isabelle
  imports Complex_Main
begin

section \<open>The chord unlock task of \<^verbatim>\<open>celery/app/builtins.py\<close>\<close>

text \<open>
  The task \<^verbatim>\<open>unlock_chord\<close> polls the header group of a chord. One invocation is
  modelled as a function from the state of the application at that moment and the task's
  arguments to the way the invocation ends together with the calls it made on its
  collaborators, in program order. Exceptions are values of type \<open>exc\<close>: instances of
  Python's \<^verbatim>\<open>Exception\<close>, the class the two handlers of the task catch. The only thing
  the task reads from an exception is its \<^verbatim>\<open>repr\<close>.
\<close>

subsection \<open>Data\<close>

type_synonym task_id = string

datatype exc = Exception (repr: string)

datatype 'v outcome = Success 'v | Failure exc

text \<open>A callback arrives either serialized (a dict) or as a signature object.\<close>

datatype callback = Dict string | Signature string

datatype result_tuple = Result_Tuple (tuple_id: task_id)

datatype async_result = AsyncResult (id_of: task_id)

datatype group_result = GroupResult (gid: string) (results: "async_result list")

datatype chord_error = ChordError (reason: string)

record conf =
  CELERY_CHORD_PROPAGATES :: bool

datatype join_kind = Native | Generic

text \<open>
  What leaves the task as an exception: the result of \<^verbatim>\<open>unlock_chord.retry\<close>, which is
  either \<^verbatim>\<open>Retry\<close> (a further attempt was submitted, with its retry count and its
  countdown) or the failure of an exhausted retry budget; and the \<^verbatim>\<open>TypeError\<close> of
  iterating over \<^verbatim>\<open>result=None\<close>.
\<close>

datatype raised = Retry (attempt: nat) (countdown: rat) | MaxRetriesExceededError | TypeError

datatype exit = Returned | Raised raised

text \<open>The calls of one invocation on its collaborators.\<close>

datatype 'v event =
    Maybe_Signature callback
  | Ready_Check group_result
  | Join_Call join_kind group_result rat bool
  | Failed_Join_Report group_result
  | Log_Error string exc
  | Chord_Error_From_Stack callback chord_error
  | Delay callback "'v outcome list"
  | Retry_Call rat "int option"

text \<open>
  The keyword arguments of the task. \<^verbatim>\<open>Result\<close>, \<^verbatim>\<open>GroupResult\<close> and
  \<^verbatim>\<open>result_from_tuple\<close> are arguments too, with defaults taken from the application;
  they are part of \<open>app\<close> below.
\<close>

record chord_args =
  group_id :: string
  callback :: callback
  interval :: "rat option"
  propagate :: "bool option"
  max_retries :: "int option"
  result :: "result_tuple list option"

text \<open>
  The application as one invocation sees it: its configuration at that moment, and the
  behaviour of every collaborator the task calls. \<open>join\<close> and \<open>join_native\<close> take the
  timeout and the propagate flag and return the joined list or the exception they raise;
  \<open>failed_join_report\<close> is the sequence the generator of that name yields; \<open>delay\<close> is
  \<open>None\<close> when the submission returns and \<open>Some e\<close> when it raises \<open>e\<close>; \<open>retry\<close> is
  what \<^verbatim>\<open>unlock_chord.retry\<close> gives to raise.
\<close>

record 'v app =
  conf :: conf
  maybe_signature :: "callback \<Rightarrow> callback"
  result_from_tuple :: "result_tuple \<Rightarrow> async_result"
  supports_native_join :: "group_result \<Rightarrow> bool"
  ready :: "group_result \<Rightarrow> bool"
  join :: "group_result \<Rightarrow> rat \<Rightarrow> bool \<Rightarrow> exc + 'v outcome list"
  join_native :: "group_result \<Rightarrow> rat \<Rightarrow> bool \<Rightarrow> exc + 'v outcome list"
  failed_join_report :: "group_result \<Rightarrow> async_result list"
  delay :: "callback \<Rightarrow> 'v outcome list \<Rightarrow> exc option"
  retry :: "rat \<Rightarrow> int option \<Rightarrow> raised"

subsection \<open>The task\<close>

text \<open>\<^verbatim>\<open>default_retry_delay=1\<close> in the task decorator.\<close>

definition default_retry_delay :: rat where
  "default_retry_delay = 1"

text \<open>
  \<^verbatim>\<open>unlock_chord\<close>, lines 52 to 101. The first argument is the closure variable
  \<^verbatim>\<open>default_propagate\<close>.
\<close>

definition unlock_chord :: "bool \<Rightarrow> 'v app \<Rightarrow> chord_args \<Rightarrow> exit \<times> 'v event list" where
  "unlock_chord default_propagate app a =
    (let propagate' = (case propagate a of None \<Rightarrow> default_propagate | Some p \<Rightarrow> p);
         interval' = (case interval a of None \<Rightarrow> default_retry_delay | Some i \<Rightarrow> i);
         callback' = maybe_signature app (callback a);
         tr0 = [Maybe_Signature (callback a)]
     in case result a of
          None \<Rightarrow> (Raised TypeError, tr0)
        | Some rs \<Rightarrow>
            (let deps = GroupResult (group_id a) (map (result_from_tuple app) rs);
                 native = supports_native_join app deps;
                 j = (if native then join_native app else join app);
                 tr1 = tr0 @ [Ready_Check deps]
             in if ready app deps then
                  (let callback'' = maybe_signature app callback';
                       tr2 = tr1 @ [Maybe_Signature callback',
                                    Join_Call (if native then Native else Generic) deps 3 propagate']
                   in case j deps 3 propagate' of
                        Inl exc \<Rightarrow>
                          (let reason' =
                                 (case failed_join_report app deps of
                                    culprit # _ \<Rightarrow>
                                      ''Dependency '' @ id_of culprit @ '' raised '' @ repr exc
                                  | [] \<Rightarrow> repr exc)
                           in (Returned,
                               tr2 @ [Failed_Join_Report deps,
                                      Log_Error (group_id a) exc,
                                      Chord_Error_From_Stack callback'' (ChordError reason')]))
                      | Inr ret \<Rightarrow>
                          (case delay app callback'' ret of
                             None \<Rightarrow> (Returned, tr2 @ [Delay callback'' ret])
                           | Some exc \<Rightarrow>
                               (Returned,
                                tr2 @ [Delay callback'' ret,
                                       Log_Error (group_id a) exc,
                                       Chord_Error_From_Stack callback''
                                         (ChordError (''Callback error: '' @ repr exc))])))
                else (Raised (retry app interval' (max_retries a)),
                      tr1 @ [Retry_Call interval' (max_retries a)])))"

text \<open>
  \<^verbatim>\<open>add_unlock_chord_task\<close>, lines 38 to 102: reads the configuration once, when the
  task is created, and returns the task.
\<close>

definition add_unlock_chord_task :: "'v app \<Rightarrow> 'v app \<Rightarrow> chord_args \<Rightarrow> exit \<times> 'v event list" where
  "add_unlock_chord_task app0 = unlock_chord (CELERY_CHORD_PROPAGATES (conf app0))"

subsection \<open>Reading a trace\<close>

fun is_resolve :: "'v event \<Rightarrow> bool" where
  "is_resolve (Maybe_Signature _) = True"
| "is_resolve _ = False"

fun is_join :: "'v event \<Rightarrow> bool" where
  "is_join (Join_Call _ _ _ _) = True"
| "is_join _ = False"

fun is_dispatch :: "'v event \<Rightarrow> bool" where
  "is_dispatch (Delay _ _) = True"
| "is_dispatch _ = False"

fun is_report :: "'v event \<Rightarrow> bool" where
  "is_report (Chord_Error_From_Stack _ _) = True"
| "is_report _ = False"

fun is_retry :: "'v event \<Rightarrow> bool" where
  "is_retry (Retry_Call _ _) = True"
| "is_retry _ = False"

definition terminal_action :: "'v event \<Rightarrow> bool" where
  "terminal_action e = (is_dispatch e \<or> is_report e)"

subsection \<open>The collaborators\<close>

text \<open>
  The collaborators of the task live in \<^verbatim>\<open>celery.canvas\<close>, \<^verbatim>\<open>celery.result\<close> and
  \<^verbatim>\<open>celery.app.task\<close>. A \<open>world\<close> is what they read at one poll attempt: the result
  store (the outcome stored for a member, \<open>None\<close> while it is not ready; the stamp of
  its completion; the time the store takes to hand its value out), whether the store
  has a native join, what the transport answers to a submission, and the configuration
  at that moment.
\<close>

record 'v world =
  state_of :: "task_id \<Rightarrow> 'v outcome option"
  date_done :: "task_id \<Rightarrow> nat"
  fetch_time :: "task_id \<Rightarrow> rat"
  native :: bool
  submit :: "callback \<Rightarrow> 'v outcome list \<Rightarrow> exc option"
  configuration :: conf

text \<open>
  Modelled from the spec: \<^verbatim>\<open>maybe_signature\<close> of \<^verbatim>\<open>celery.canvas\<close>, which is not in
  this file. The spec: the callback signature is resolved or normalized, the resolution
  is idempotent and is not a mutation of stored state. A serialized callback becomes a
  signature, a signature stays as it is.
\<close>

fun canvas_maybe_signature :: "callback \<Rightarrow> callback" where
  "canvas_maybe_signature (Dict d) = Signature d"
| "canvas_maybe_signature (Signature s) = Signature s"

text \<open>
  Modelled from the spec: \<^verbatim>\<open>result_from_tuple\<close> of \<^verbatim>\<open>celery.result\<close>. The spec: a
  group snapshot is reconstructable from a serialized form, and member references
  survive serialization.
\<close>

fun celery_result_from_tuple :: "result_tuple \<Rightarrow> async_result" where
  "celery_result_from_tuple (Result_Tuple i) = AsyncResult i"

text \<open>
  Modelled from the spec: \<^verbatim>\<open>ready\<close> of the group result. The spec: the group is ready
  when all members are ready.
\<close>

definition ResultSet_ready :: "'v world \<Rightarrow> group_result \<Rightarrow> bool" where
  "ResultSet_ready w deps = list_all (\<lambda>h. state_of w (id_of h) \<noteq> None) (results deps)"

text \<open>
  Modelled from the spec: the error of a value fetch that exceeds its budget, which the
  spec calls JoinTimeout.
\<close>

definition JoinTimeout :: exc where
  "JoinTimeout = Exception ''JoinTimeout''"

text \<open>
  Modelled from the spec: \<^verbatim>\<open>join\<close> of the group result, the generic join. The spec: a
  per-member sequential join that collects the outcomes in member order; with
  propagate the first failed member aborts the join and its cause is the error, without
  propagate a failure is one entry of the result like a success; the join bounds its
  own blocking time, and exceeding the timeout is an error, not a partial result. The
  second argument is the time that remains of the timeout.
\<close>

fun join_members :: "'v world \<Rightarrow> rat \<Rightarrow> bool \<Rightarrow> async_result list \<Rightarrow> exc + 'v outcome list" where
  "join_members w remaining p [] = Inr []"
| "join_members w remaining p (h # hs) =
     (if remaining < fetch_time w (id_of h) then Inl JoinTimeout
      else case state_of w (id_of h) of
             None \<Rightarrow> Inl JoinTimeout
           | Some (Failure e) \<Rightarrow>
               if p then Inl e
               else (case join_members w (remaining - fetch_time w (id_of h)) p hs of
                       Inl x \<Rightarrow> Inl x
                     | Inr os \<Rightarrow> Inr (Failure e # os))
           | Some (Success v) \<Rightarrow>
               (case join_members w (remaining - fetch_time w (id_of h)) p hs of
                  Inl x \<Rightarrow> Inl x
                | Inr os \<Rightarrow> Inr (Success v # os)))"

definition ResultSet_join :: "'v world \<Rightarrow> group_result \<Rightarrow> rat \<Rightarrow> bool \<Rightarrow> exc + 'v outcome list" where
  "ResultSet_join w deps timeout p = join_members w timeout p (results deps)"

text \<open>
  Modelled from the spec: \<^verbatim>\<open>join_native\<close> of the group result. The spec: the native join
  fetches all member outcomes in a single operation; order, propagate and the timeout
  are those of the generic join. The single operation exceeds the timeout when the
  value of one member takes longer than the timeout.
\<close>

fun collect :: "'v world \<Rightarrow> bool \<Rightarrow> async_result list \<Rightarrow> exc + 'v outcome list" where
  "collect w p [] = Inr []"
| "collect w p (h # hs) =
     (case state_of w (id_of h) of
        None \<Rightarrow> Inl JoinTimeout
      | Some (Failure e) \<Rightarrow>
          if p then Inl e
          else (case collect w p hs of Inl x \<Rightarrow> Inl x | Inr os \<Rightarrow> Inr (Failure e # os))
      | Some (Success v) \<Rightarrow>
          (case collect w p hs of Inl x \<Rightarrow> Inl x | Inr os \<Rightarrow> Inr (Success v # os)))"

definition ResultSet_join_native :: "'v world \<Rightarrow> group_result \<Rightarrow> rat \<Rightarrow> bool \<Rightarrow> exc + 'v outcome list" where
  "ResultSet_join_native w deps timeout p =
     (if list_ex (\<lambda>h. timeout < fetch_time w (id_of h)) (results deps) then Inl JoinTimeout
      else collect w p (results deps))"

text \<open>
  Modelled from the spec: \<^verbatim>\<open>_failed_join_report\<close> of the group result. The spec: the
  join error can identify a specific failed member; the reporter names the first
  failing member. The members whose stored outcome is a failure, in member order.
\<close>

fun failed :: "'v world \<Rightarrow> async_result \<Rightarrow> bool" where
  "failed w h = (case state_of w (id_of h) of Some (Failure _) \<Rightarrow> True | _ \<Rightarrow> False)"

definition ResultSet_failed_join_report :: "'v world \<Rightarrow> group_result \<Rightarrow> async_result list" where
  "ResultSet_failed_join_report w deps = filter (failed w) (results deps)"

text \<open>
  Modelled from the spec: \<^verbatim>\<open>retry\<close> of the task class in \<^verbatim>\<open>celery.app.task\<close>. The spec:
  a not-ready attempt schedules another attempt after the poll interval, decrementing
  the remaining retry budget if bounded; an exhausted budget is a failure of the
  scheduling layer, and nothing is scheduled; without \<^verbatim>\<open>max_retries\<close> the budget is
  unbounded (the task is declared with \<^verbatim>\<open>max_retries=None\<close>). The first argument is the
  number of retries the request has behind it; the budget that remains is
  \<^verbatim>\<open>max_retries\<close> minus that number.
\<close>

definition Task_retry :: "nat \<Rightarrow> rat \<Rightarrow> int option \<Rightarrow> raised" where
  "Task_retry request_retries countdown' max_retries' =
     (let retries = request_retries + 1
      in case max_retries' of
           None \<Rightarrow> Retry retries countdown'
         | Some m \<Rightarrow> if int retries > m then MaxRetriesExceededError
                     else Retry retries countdown')"

text \<open>The application of one poll attempt: a world and the retry count of the request.\<close>

definition celery_app :: "'v world \<Rightarrow> nat \<Rightarrow> 'v app" where
  "celery_app w request_retries =
     \<lparr> conf = configuration w,
       maybe_signature = canvas_maybe_signature,
       result_from_tuple = celery_result_from_tuple,
       supports_native_join = (\<lambda>deps. native w),
       ready = ResultSet_ready w,
       join = ResultSet_join w,
       join_native = ResultSet_join_native w,
       failed_join_report = ResultSet_failed_join_report w,
       delay = submit w,
       retry = Task_retry request_retries \<rparr>"

text \<open>
  Modelled from the spec: the task-dispatch transport, which runs the attempt that a
  retry scheduled. The spec: each retry is a fresh, independently schedulable unit of
  work; nothing passes from one attempt to the next but the arguments and the retry
  count. \<open>ws\<close> lists the worlds that the successive attempts find; the chain goes on as
  long as an attempt ends with \<^verbatim>\<open>Retry\<close>.
\<close>

fun chord_lifetime :: "bool \<Rightarrow> chord_args \<Rightarrow> nat \<Rightarrow> 'v world list \<Rightarrow> (exit \<times> 'v event list) list" where
  "chord_lifetime dp a r [] = []"
| "chord_lifetime dp a r (w # ws) =
     (let out = unlock_chord dp (celery_app w r) a
      in out # (case fst out of
                  Raised (Retry r' c) \<Rightarrow> chord_lifetime dp a r' ws
                | _ \<Rightarrow> []))"

text \<open>
  Modelled from the spec: when the value fetch of a ready group exceeds the timeout of
  the join. The spec: the native join is a single operation, the generic join fetches
  member after member. The single operation exceeds the timeout when one member does;
  the sequential join when the members together do.
\<close>

definition fetch_exceeds :: "'v world \<Rightarrow> group_result \<Rightarrow> rat \<Rightarrow> bool" where
  "fetch_exceeds w deps timeout =
     (if native w then list_ex (\<lambda>h. timeout < fetch_time w (id_of h)) (results deps)
      else timeout < sum_list (map (\<lambda>h. fetch_time w (id_of h)) (results deps)))"

subsection \<open>Example worlds\<close>

text \<open>
  A world given by a table: for each member that is ready its outcome, its completion
  stamp and its fetch time. A member that is not in the table is pending.
\<close>

definition world_of :: "(task_id \<times> int outcome \<times> nat \<times> rat) list \<Rightarrow> bool \<Rightarrow> exc option \<Rightarrow> int world" where
  "world_of tbl nat_join sub =
     \<lparr> state_of = (\<lambda>i. case map_of tbl i of None \<Rightarrow> None | Some (out, _, _) \<Rightarrow> Some out),
       date_done = (\<lambda>i. case map_of tbl i of None \<Rightarrow> 0 | Some (_, d, _) \<Rightarrow> d),
       fetch_time = (\<lambda>i. case map_of tbl i of None \<Rightarrow> 0 | Some (_, _, t) \<Rightarrow> t),
       native = nat_join,
       submit = (\<lambda>c ret. sub),
       configuration = \<lparr> CELERY_CHORD_PROPAGATES = True \<rparr> \<rparr>"

definition chord_of :: "task_id list \<Rightarrow> bool option \<Rightarrow> int option \<Rightarrow> chord_args" where
  "chord_of ids p m =
     \<lparr> group_id = ''g'', callback = Dict ''body'', interval = None, propagate = p,
       max_retries = m, result = Some (map Result_Tuple ids) \<rparr>"

definition mixed_world :: "int world" where
  "mixed_world = world_of [(''a'', Success 1, 2, 1/2), (''b'', Failure (Exception ''x''), 3, 1/2),
                           (''c'', Success 2, 1, 1/2)] False None"

definition failing_transport_world :: "int world" where
  "failing_transport_world = world_of [(''a'', Success 1, 1, 1)] True (Some (Exception ''boom''))"

definition pending_world :: "int world" where
  "pending_world = world_of [(''a'', Success 1, 1, 1)] False None"

definition done_world :: "int world" where
  "done_world = world_of [(''a'', Success 1, 1, 1), (''b'', Success 2, 2, 1)] False None"

definition slow_world :: "int world" where
  "slow_world = world_of [(''a'', Success 1, 1, 2), (''b'', Success 2, 2, 2)] False None"

definition lenient_world :: "int world" where
  "lenient_world = mixed_world\<lparr>configuration := \<lparr>CELERY_CHORD_PROPAGATES = False\<rparr>\<rparr>"

subsection \<open>Names for the local values of the task\<close>

text \<open>
  The values that \<^verbatim>\<open>unlock_chord\<close> binds on lines 61 to 74, as abbreviations: the
  statements below read like the code, and nothing is added to the model.
\<close>

abbreviation effective_propagate :: "bool \<Rightarrow> chord_args \<Rightarrow> bool" where
  "effective_propagate dp a \<equiv> (case propagate a of None \<Rightarrow> dp | Some p \<Rightarrow> p)"

abbreviation effective_interval :: "chord_args \<Rightarrow> rat" where
  "effective_interval a \<equiv> (case interval a of None \<Rightarrow> default_retry_delay | Some i \<Rightarrow> i)"

abbreviation deps_of :: "'v app \<Rightarrow> chord_args \<Rightarrow> result_tuple list \<Rightarrow> group_result" where
  "deps_of app a rs \<equiv> GroupResult (group_id a) (map (result_from_tuple app) rs)"

abbreviation selected_join :: "'v app \<Rightarrow> group_result \<Rightarrow> group_result \<Rightarrow> rat \<Rightarrow> bool \<Rightarrow> exc + 'v outcome list" where
  "selected_join app deps \<equiv> (if supports_native_join app deps then join_native app else join app)"

abbreviation selected_kind :: "'v app \<Rightarrow> group_result \<Rightarrow> join_kind" where
  "selected_kind app deps \<equiv> (if supports_native_join app deps then Native else Generic)"

abbreviation resolved :: "'v app \<Rightarrow> chord_args \<Rightarrow> callback" where
  "resolved app a \<equiv> maybe_signature app (maybe_signature app (callback a))"

text \<open>
  The same for the collaborators as modelled: the group result that the task builds, the
  trace of an attempt that finds the group not ready, and the retry budget
  (\<open>budget_allows r n m\<close>: a request with \<open>r\<close> retries behind it may retry \<open>n\<close> more
  times under \<^verbatim>\<open>max_retries = m\<close>).
\<close>

abbreviation celery_deps :: "chord_args \<Rightarrow> result_tuple list \<Rightarrow> group_result" where
  "celery_deps a rs \<equiv> GroupResult (group_id a) (map celery_result_from_tuple rs)"

abbreviation retry_trace :: "chord_args \<Rightarrow> result_tuple list \<Rightarrow> 'v event list" where
  "retry_trace a rs \<equiv>
     [Maybe_Signature (callback a), Ready_Check (celery_deps a rs),
      Retry_Call (effective_interval a) (max_retries a)]"

abbreviation budget_allows :: "nat \<Rightarrow> nat \<Rightarrow> int option \<Rightarrow> bool" where
  "budget_allows r n m \<equiv> (case m of None \<Rightarrow> True | Some k \<Rightarrow> int (r + n) \<le> k)"

section \<open>The ways an invocation ends\<close>

text \<open>
  \<^verbatim>\<open>result=None\<close> fails in the comprehension of line 69, after the first resolution of
  the callback.
\<close>

lemma unlock_chord_no_result:
  "result a = None \<Longrightarrow> unlock_chord dp app a = (Raised TypeError, [Maybe_Signature (callback a)])"
  by (simp add: unlock_chord_def)

text \<open>Not ready: lines 99 to 101.\<close>

lemma unlock_chord_not_ready:
  assumes "result a = Some rs" and "\<not> ready app (deps_of app a rs)"
  shows "unlock_chord dp app a =
           (Raised (retry app (effective_interval a) (max_retries a)),
            [Maybe_Signature (callback a), Ready_Check (deps_of app a rs),
             Retry_Call (effective_interval a) (max_retries a)])"
  using assms by (simp add: unlock_chord_def Let_def)

text \<open>Ready and the join raises: lines 78 to 88.\<close>

lemma unlock_chord_join_raised:
  assumes "result a = Some rs" and "ready app (deps_of app a rs)"
    and "selected_join app (deps_of app a rs) (deps_of app a rs) 3 (effective_propagate dp a) = Inl e"
  shows "unlock_chord dp app a =
           (Returned,
            [Maybe_Signature (callback a), Ready_Check (deps_of app a rs),
             Maybe_Signature (maybe_signature app (callback a)),
             Join_Call (selected_kind app (deps_of app a rs)) (deps_of app a rs) 3 (effective_propagate dp a),
             Failed_Join_Report (deps_of app a rs),
             Log_Error (group_id a) e,
             Chord_Error_From_Stack (resolved app a)
               (ChordError (case failed_join_report app (deps_of app a rs) of
                              culprit # _ \<Rightarrow> ''Dependency '' @ id_of culprit @ '' raised '' @ repr e
                            | [] \<Rightarrow> repr e))])"
  using assms by (simp add: unlock_chord_def Let_def)

text \<open>Ready, the join returns and the submission returns: lines 89 to 91.\<close>

lemma unlock_chord_dispatched:
  assumes "result a = Some rs" and "ready app (deps_of app a rs)"
    and "selected_join app (deps_of app a rs) (deps_of app a rs) 3 (effective_propagate dp a) = Inr ret"
    and "delay app (resolved app a) ret = None"
  shows "unlock_chord dp app a =
           (Returned,
            [Maybe_Signature (callback a), Ready_Check (deps_of app a rs),
             Maybe_Signature (maybe_signature app (callback a)),
             Join_Call (selected_kind app (deps_of app a rs)) (deps_of app a rs) 3 (effective_propagate dp a),
             Delay (resolved app a) ret])"
  using assms by (simp add: unlock_chord_def Let_def)

text \<open>Ready, the join returns and the submission raises: lines 92 to 98.\<close>

lemma unlock_chord_dispatch_raised:
  assumes "result a = Some rs" and "ready app (deps_of app a rs)"
    and "selected_join app (deps_of app a rs) (deps_of app a rs) 3 (effective_propagate dp a) = Inr ret"
    and "delay app (resolved app a) ret = Some e"
  shows "unlock_chord dp app a =
           (Returned,
            [Maybe_Signature (callback a), Ready_Check (deps_of app a rs),
             Maybe_Signature (maybe_signature app (callback a)),
             Join_Call (selected_kind app (deps_of app a rs)) (deps_of app a rs) 3 (effective_propagate dp a),
             Delay (resolved app a) ret,
             Log_Error (group_id a) e,
             Chord_Error_From_Stack (resolved app a) (ChordError (''Callback error: '' @ repr e))])"
  using assms by (simp add: unlock_chord_def Let_def)

text \<open>Every invocation ends in one of these five ways.\<close>

lemma unlock_chord_cases [case_names no_result not_ready join_raised dispatched dispatch_raised]:
  fixes app :: "'v app"
  assumes "result a = None \<Longrightarrow> P"
    and "\<And>rs. result a = Some rs \<Longrightarrow> \<not> ready app (deps_of app a rs) \<Longrightarrow> P"
    and "\<And>rs e. result a = Some rs \<Longrightarrow> ready app (deps_of app a rs) \<Longrightarrow>
           selected_join app (deps_of app a rs) (deps_of app a rs) 3 (effective_propagate dp a) = Inl e \<Longrightarrow> P"
    and "\<And>rs ret. result a = Some rs \<Longrightarrow> ready app (deps_of app a rs) \<Longrightarrow>
           selected_join app (deps_of app a rs) (deps_of app a rs) 3 (effective_propagate dp a) = Inr ret \<Longrightarrow>
           delay app (resolved app a) ret = None \<Longrightarrow> P"
    and "\<And>rs ret e. result a = Some rs \<Longrightarrow> ready app (deps_of app a rs) \<Longrightarrow>
           selected_join app (deps_of app a rs) (deps_of app a rs) 3 (effective_propagate dp a) = Inr ret \<Longrightarrow>
           delay app (resolved app a) ret = Some e \<Longrightarrow> P"
  shows P
proof (cases "result a")
  case None
  then show ?thesis by (rule assms(1))
next
  case (Some rs)
  show ?thesis
  proof (cases "ready app (deps_of app a rs)")
    case False
    with Some show ?thesis by (rule assms(2))
  next
    case True
    show ?thesis
    proof (cases "selected_join app (deps_of app a rs) (deps_of app a rs) 3 (effective_propagate dp a)")
      case (Inl e)
      with Some True show ?thesis by (rule assms(3))
    next
      case (Inr ret)
      show ?thesis
      proof (cases "delay app (resolved app a) ret")
        case None
        with Some True Inr show ?thesis by (rule assms(4))
      next
        case (Some e)
        with \<open>result a = Some rs\<close> True Inr show ?thesis by (rule assms(5))
      qed
    qed
  qed
qed

text \<open>An attempt that raises took no terminal action; no attempt takes one twice.\<close>

lemma unlock_chord_raised_no_terminal:
  "fst (unlock_chord dp app a) = Raised x \<Longrightarrow> filter terminal_action (snd (unlock_chord dp app a)) = []"
proof (cases rule: unlock_chord_cases [where a = a and app = app and dp = dp])
  case no_result
  then show ?thesis by (simp add: unlock_chord_no_result terminal_action_def)
next
  case (not_ready rs)
  then show ?thesis by (simp add: unlock_chord_not_ready terminal_action_def)
next
  case (join_raised rs e)
  assume "fst (unlock_chord dp app a) = Raised x"
  with join_raised show ?thesis by (simp add: unlock_chord_join_raised)
next
  case (dispatched rs ret)
  assume "fst (unlock_chord dp app a) = Raised x"
  with dispatched show ?thesis by (simp add: unlock_chord_dispatched)
next
  case (dispatch_raised rs ret e)
  assume "fst (unlock_chord dp app a) = Raised x"
  with dispatch_raised show ?thesis by (simp add: unlock_chord_dispatch_raised)
qed

lemma unlock_chord_one_dispatch:
  "length (filter is_dispatch (snd (unlock_chord dp app a))) \<le> 1"
proof (cases rule: unlock_chord_cases [where a = a and app = app and dp = dp])
  case no_result
  then show ?thesis by (simp add: unlock_chord_no_result)
next
  case (not_ready rs)
  then show ?thesis by (simp add: unlock_chord_not_ready)
next
  case (join_raised rs e)
  then show ?thesis by (simp add: unlock_chord_join_raised)
next
  case (dispatched rs ret)
  then show ?thesis by (simp add: unlock_chord_dispatched)
next
  case (dispatch_raised rs ret e)
  then show ?thesis by (simp add: unlock_chord_dispatch_raised)
qed

lemma unlock_chord_one_report:
  "length (filter is_report (snd (unlock_chord dp app a))) \<le> 1"
proof (cases rule: unlock_chord_cases [where a = a and app = app and dp = dp])
  case no_result
  then show ?thesis by (simp add: unlock_chord_no_result)
next
  case (not_ready rs)
  then show ?thesis by (simp add: unlock_chord_not_ready)
next
  case (join_raised rs e)
  then show ?thesis by (simp add: unlock_chord_join_raised)
next
  case (dispatched rs ret)
  then show ?thesis by (simp add: unlock_chord_dispatched)
next
  case (dispatch_raised rs ret e)
  then show ?thesis by (simp add: unlock_chord_dispatch_raised)
qed

text \<open>The definitions that evaluate the collaborators on an example world.\<close>

lemmas example_defs = mixed_world_def failing_transport_world_def pending_world_def done_world_def
  world_of_def chord_of_def celery_app_def
  ResultSet_ready_def ResultSet_join_def ResultSet_join_native_def ResultSet_failed_join_report_def
  JoinTimeout_def Task_retry_def default_retry_delay_def terminal_action_def

section \<open>Not ready: the retry\<close>

lemma celery_not_ready:
  assumes "result a = Some rs" and "\<not> ResultSet_ready w (celery_deps a rs)"
  shows "unlock_chord dp (celery_app w r) a =
           (Raised (Task_retry r (effective_interval a) (max_retries a)), retry_trace a rs)"
  using assms unlock_chord_not_ready [of a rs "celery_app w r" dp]
  by (simp add: celery_app_def)

lemma Task_retry_within_budget:
  "budget_allows r 1 m \<Longrightarrow> Task_retry r c m = Retry (r + 1) c"
  by (simp add: Task_retry_def split: option.splits)

lemma Task_retry_exhausted:
  "\<not> budget_allows r 1 m \<Longrightarrow> Task_retry r c m = MaxRetriesExceededError"
  by (simp add: Task_retry_def split: option.splits)

lemma chord_lifetime_not_ready:
  assumes "result a = Some rs"
  shows "\<forall>w\<in>set ws. \<not> ResultSet_ready w (celery_deps a rs) \<Longrightarrow>
         budget_allows r (length ws) (max_retries a) \<Longrightarrow>
         chord_lifetime dp a r ws =
           map (\<lambda>k. (Raised (Retry (r + k + 1) (effective_interval a)), retry_trace a rs))
             [0..<length ws]"
proof (induction ws arbitrary: r)
  case Nil
  show ?case by simp
next
  case (Cons w ws)
  have nr: "\<not> ResultSet_ready w (celery_deps a rs)"
    using Cons.prems(1) by simp
  have b1: "budget_allows r 1 (max_retries a)"
    using Cons.prems(2) by (simp split: option.splits)
  have out: "unlock_chord dp (celery_app w r) a =
               (Raised (Retry (r + 1) (effective_interval a)), retry_trace a rs)"
    by (simp add: celery_not_ready [OF assms nr] Task_retry_within_budget [OF b1])
  have rest: "chord_lifetime dp a (r + 1) ws =
                map (\<lambda>k. (Raised (Retry (r + 1 + k + 1) (effective_interval a)), retry_trace a rs))
                  [0..<length ws]"
    using Cons.prems by (intro Cons.IH) (simp_all split: option.splits)
  have shift: "[0..<length (w # ws)] = 0 # map Suc [0..<length ws]"
    by (simp add: upt_conv_Cons map_Suc_upt del: upt_Suc)
  show ?case
    using rest by (simp only: shift) (simp add: out comp_def del: upt_Suc)
qed

text \<open>
  Claim C3, as amended. An attempt that finds the group not ready attempts no join,
  dispatches no callback and reports no error: it resolves the callback, checks
  readiness and calls \<^verbatim>\<open>retry\<close> once, with the poll interval as countdown and the
  \<^verbatim>\<open>max_retries\<close> it was given. That call schedules exactly one further attempt when the
  retry budget is unbounded or not exhausted; when the budget is exhausted it schedules
  nothing and the attempt ends with the failure of the scheduling layer. \<open>N\<close> attempts
  in a row that find the group not ready, within the budget, schedule exactly \<open>N\<close>
  further attempts and dispatch nothing.
\<close>

theorem not_ready_attempt_retries:
  assumes "result a = Some rs"
  shows "(\<not> ResultSet_ready w (celery_deps a rs) \<longrightarrow>
            unlock_chord dp (celery_app w r) a =
              (Raised (if budget_allows r 1 (max_retries a)
                       then Retry (r + 1) (effective_interval a)
                       else MaxRetriesExceededError),
               retry_trace a rs)) \<and>
         ((\<forall>w\<in>set ws. \<not> ResultSet_ready w (celery_deps a rs)) \<and>
          budget_allows r (length ws) (max_retries a) \<longrightarrow>
            chord_lifetime dp a r ws =
              map (\<lambda>k. (Raised (Retry (r + k + 1) (effective_interval a)), retry_trace a rs))
                [0..<length ws])"
proof (intro conjI impI)
  assume nr: "\<not> ResultSet_ready w (celery_deps a rs)"
  show "unlock_chord dp (celery_app w r) a =
          (Raised (if budget_allows r 1 (max_retries a)
                   then Retry (r + 1) (effective_interval a)
                   else MaxRetriesExceededError),
           retry_trace a rs)"
  proof (cases "budget_allows r 1 (max_retries a)")
    case True
    then show ?thesis
      by (simp add: celery_not_ready [OF assms nr] Task_retry_within_budget [OF True])
  next
    case False
    then show ?thesis
      by (simp add: celery_not_ready [OF assms nr] Task_retry_exhausted [OF False])
  qed
next
  assume h: "(\<forall>w\<in>set ws. \<not> ResultSet_ready w (celery_deps a rs)) \<and>
             budget_allows r (length ws) (max_retries a)"
  show "chord_lifetime dp a r ws =
          map (\<lambda>k. (Raised (Retry (r + k + 1) (effective_interval a)), retry_trace a rs))
            [0..<length ws]"
    using h by (intro chord_lifetime_not_ready [OF assms]) simp_all
qed

theorem not_ready_attempt_retries_witness:
  "\<not> ResultSet_ready pending_world (celery_deps (chord_of [''a'', ''b''] None (Some 2)) [Result_Tuple ''a'', Result_Tuple ''b'']) \<and>
   unlock_chord True (celery_app pending_world 0) (chord_of [''a'', ''b''] None (Some 2)) =
     (Raised (Retry 1 1),
      [Maybe_Signature (Dict ''body''),
       Ready_Check (GroupResult ''g'' [AsyncResult ''a'', AsyncResult ''b'']),
       Retry_Call 1 (Some 2)]) \<and>
   chord_lifetime True (chord_of [''a'', ''b''] None (Some 2)) 0 [pending_world, pending_world] =
     [(Raised (Retry 1 1),
       [Maybe_Signature (Dict ''body''),
        Ready_Check (GroupResult ''g'' [AsyncResult ''a'', AsyncResult ''b'']),
        Retry_Call 1 (Some 2)]),
      (Raised (Retry 2 1),
       [Maybe_Signature (Dict ''body''),
        Ready_Check (GroupResult ''g'' [AsyncResult ''a'', AsyncResult ''b'']),
        Retry_Call 1 (Some 2)])]"
proof -
  let ?a = "chord_of [''a'', ''b''] None (Some 2)"
  let ?rs = "[Result_Tuple ''a'', Result_Tuple ''b'']"
  have res: "result ?a = Some ?rs"
    by (simp add: chord_of_def)
  have nr: "\<not> ResultSet_ready pending_world (celery_deps ?a ?rs)"
    by (simp add: pending_world_def world_of_def chord_of_def ResultSet_ready_def)
  have up: "[0..<2] = [0, Suc 0]"
    by (simp add: upt_conv_Cons)
  show ?thesis
    using not_ready_attempt_retries [OF res, of pending_world True 0 "[pending_world, pending_world]"] nr
    by (simp add: chord_of_def default_retry_delay_def up del: chord_lifetime.simps)
qed

text \<open>
  Claim C3 as stated fails where the budget is exhausted: with \<^verbatim>\<open>max_retries=0\<close> the
  first attempt that finds the group not ready schedules no further attempt.
\<close>

theorem exhausted_budget_schedules_nothing:
  "\<not> ready (celery_app pending_world 0)
       (deps_of (celery_app pending_world 0) (chord_of [''a'', ''b''] None (Some 0))
          [Result_Tuple ''a'', Result_Tuple ''b'']) \<and>
   unlock_chord True (celery_app pending_world 0) (chord_of [''a'', ''b''] None (Some 0)) =
     (Raised MaxRetriesExceededError,
      [Maybe_Signature (Dict ''body''),
       Ready_Check (GroupResult ''g'' [AsyncResult ''a'', AsyncResult ''b'']),
       Retry_Call 1 (Some 0)])"
  by (simp add: pending_world_def example_defs unlock_chord_def Let_def)

section \<open>Ready: the terminal actions\<close>

text \<open>
  Claim C2, as amended. An attempt that finds the group ready returns and requests no
  retry. If the join raised, its only terminal action is one error report. If the join
  returned, it submits the callback once with the joined list, and only if that
  submission raises it goes on to one error report, with the reason of a callback
  error.
\<close>

theorem ready_attempt_terminal:
  assumes "result a = Some rs" and "ready app (deps_of app a rs)"
  shows "fst (unlock_chord dp app a) = Returned \<and>
         filter is_retry (snd (unlock_chord dp app a)) = [] \<and>
         filter terminal_action (snd (unlock_chord dp app a)) =
           (case selected_join app (deps_of app a rs) (deps_of app a rs) 3 (effective_propagate dp a) of
              Inl e \<Rightarrow>
                [Chord_Error_From_Stack (resolved app a)
                   (ChordError (case failed_join_report app (deps_of app a rs) of
                                  culprit # _ \<Rightarrow> ''Dependency '' @ id_of culprit @ '' raised '' @ repr e
                                | [] \<Rightarrow> repr e))]
            | Inr ret \<Rightarrow>
                Delay (resolved app a) ret #
                (case delay app (resolved app a) ret of
                   None \<Rightarrow> []
                 | Some e \<Rightarrow>
                     [Chord_Error_From_Stack (resolved app a)
                        (ChordError (''Callback error: '' @ repr e))]))"
proof (cases "selected_join app (deps_of app a rs) (deps_of app a rs) 3 (effective_propagate dp a)")
  case (Inl e)
  show ?thesis
    by (simp add: unlock_chord_join_raised [OF assms Inl] Inl terminal_action_def)
next
  case (Inr ret)
  show ?thesis
  proof (cases "delay app (resolved app a) ret")
    case None
    show ?thesis
      by (simp add: unlock_chord_dispatched [OF assms Inr None] Inr None terminal_action_def)
  next
    case (Some e)
    show ?thesis
      by (simp add: unlock_chord_dispatch_raised [OF assms Inr Some] Inr Some terminal_action_def)
  qed
qed

theorem ready_attempt_terminal_witness:
  "ready (celery_app done_world 0)
     (deps_of (celery_app done_world 0) (chord_of [''a'', ''b''] None None)
        [Result_Tuple ''a'', Result_Tuple ''b'']) \<and>
   fst (unlock_chord True (celery_app done_world 0) (chord_of [''a'', ''b''] None None)) = Returned \<and>
   filter is_retry (snd (unlock_chord True (celery_app done_world 0) (chord_of [''a'', ''b''] None None))) = [] \<and>
   filter terminal_action
     (snd (unlock_chord True (celery_app done_world 0) (chord_of [''a'', ''b''] None None))) =
     [Delay (Signature ''body'') [Success 1, Success 2]]"
proof -
  let ?a = "chord_of [''a'', ''b''] None None"
  let ?rs = "[Result_Tuple ''a'', Result_Tuple ''b'']"
  let ?app = "celery_app done_world 0 :: int app"
  have res: "result ?a = Some ?rs"
    by (simp add: chord_of_def)
  have rdy: "ready ?app (deps_of ?app ?a ?rs)"
    by (simp add: example_defs)
  show ?thesis
    using ready_attempt_terminal [OF res rdy, of True] rdy by (simp add: example_defs)
qed

text \<open>
  Claim C2 as stated fails where the submission raises: the attempt then takes two
  terminal actions, the dispatch and the error report.
\<close>

theorem ready_attempt_two_actions:
  "ready (celery_app failing_transport_world 0)
     (deps_of (celery_app failing_transport_world 0) (chord_of [''a''] None None) [Result_Tuple ''a'']) \<and>
   length (filter terminal_action
     (snd (unlock_chord True (celery_app failing_transport_world 0) (chord_of [''a''] None None)))) = 2"
  by (simp add: example_defs unlock_chord_def Let_def)

section \<open>The two error reports\<close>

text \<open>
  Claim C5. When the join raises, the attempt returns to its caller (nothing is raised
  again) and its only terminal action is one error report on the callback, with a
  \<^verbatim>\<open>ChordError\<close> whose reason is \<^verbatim>\<open>Dependency <id> raised <repr of the exception>\<close> for
  the first member that the failure report of the group yields, and the \<^verbatim>\<open>repr\<close> of the
  exception alone when the report yields none.
\<close>

theorem join_error_recovered:
  assumes "result a = Some rs" and "ready app (deps_of app a rs)"
    and "selected_join app (deps_of app a rs) (deps_of app a rs) 3 (effective_propagate dp a) = Inl e"
  shows "fst (unlock_chord dp app a) = Returned \<and>
         filter terminal_action (snd (unlock_chord dp app a)) =
           [Chord_Error_From_Stack (resolved app a)
              (ChordError (case failed_join_report app (deps_of app a rs) of
                             culprit # _ \<Rightarrow> ''Dependency '' @ id_of culprit @ '' raised '' @ repr e
                           | [] \<Rightarrow> repr e))]"
  by (simp add: unlock_chord_join_raised [OF assms] terminal_action_def)

theorem join_error_recovered_witness:
  "ready (celery_app mixed_world 0)
     (deps_of (celery_app mixed_world 0) (chord_of [''a'', ''b'', ''c''] None None)
        [Result_Tuple ''a'', Result_Tuple ''b'', Result_Tuple ''c'']) \<and>
   fst (unlock_chord True (celery_app mixed_world 0) (chord_of [''a'', ''b'', ''c''] None None)) = Returned \<and>
   filter terminal_action
     (snd (unlock_chord True (celery_app mixed_world 0) (chord_of [''a'', ''b'', ''c''] None None))) =
     [Chord_Error_From_Stack (Signature ''body'') (ChordError ''Dependency b raised x'')]"
proof -
  let ?a = "chord_of [''a'', ''b'', ''c''] None None"
  let ?app = "celery_app mixed_world 0 :: int app"
  have res: "result ?a = Some [Result_Tuple ''a'', Result_Tuple ''b'', Result_Tuple ''c'']"
    by (simp add: chord_of_def)
  have rdy: "ready ?app (deps_of ?app ?a [Result_Tuple ''a'', Result_Tuple ''b'', Result_Tuple ''c''])"
    by (simp add: example_defs)
  have jn: "selected_join ?app (deps_of ?app ?a [Result_Tuple ''a'', Result_Tuple ''b'', Result_Tuple ''c''])
              (deps_of ?app ?a [Result_Tuple ''a'', Result_Tuple ''b'', Result_Tuple ''c'']) 3
              (effective_propagate True ?a) = Inl (Exception ''x'')"
    by (simp add: example_defs)
  show ?thesis
    using join_error_recovered [OF res rdy jn] rdy by (simp add: example_defs)
qed

text \<open>
  Claim C6. When the join returned and the submission of the callback raises, the
  attempt returns to its caller, and after the dispatch it reports one \<^verbatim>\<open>ChordError\<close>
  whose reason is \<^verbatim>\<open>Callback error: \<close> followed by the \<^verbatim>\<open>repr\<close> of the cause. That reason
  differs from every reason that names a failed member, and from the bare \<^verbatim>\<open>repr\<close> of
  the same cause.
\<close>

theorem dispatch_error_converted:
  assumes "result a = Some rs" and "ready app (deps_of app a rs)"
    and "selected_join app (deps_of app a rs) (deps_of app a rs) 3 (effective_propagate dp a) = Inr ret"
    and "delay app (resolved app a) ret = Some e"
  shows "fst (unlock_chord dp app a) = Returned \<and>
         filter terminal_action (snd (unlock_chord dp app a)) =
           [Delay (resolved app a) ret,
            Chord_Error_From_Stack (resolved app a) (ChordError (''Callback error: '' @ repr e))] \<and>
         ''Callback error: '' @ repr e \<noteq> ''Dependency '' @ i @ '' raised '' @ s \<and>
         ''Callback error: '' @ repr e \<noteq> repr e"
  by (simp add: unlock_chord_dispatch_raised [OF assms] terminal_action_def)

theorem dispatch_error_converted_witness:
  "ready (celery_app failing_transport_world 0)
     (deps_of (celery_app failing_transport_world 0) (chord_of [''a''] None None) [Result_Tuple ''a'']) \<and>
   delay (celery_app failing_transport_world 0) (Signature ''body'') [Success 1] = Some (Exception ''boom'') \<and>
   fst (unlock_chord True (celery_app failing_transport_world 0) (chord_of [''a''] None None)) = Returned \<and>
   filter terminal_action
     (snd (unlock_chord True (celery_app failing_transport_world 0) (chord_of [''a''] None None))) =
     [Delay (Signature ''body'') [Success 1],
      Chord_Error_From_Stack (Signature ''body'') (ChordError ''Callback error: boom'')]"
proof -
  let ?a = "chord_of [''a''] None None"
  let ?app = "celery_app failing_transport_world 0 :: int app"
  have res: "result ?a = Some [Result_Tuple ''a'']"
    by (simp add: chord_of_def)
  have rdy: "ready ?app (deps_of ?app ?a [Result_Tuple ''a''])"
    by (simp add: example_defs)
  have jn: "selected_join ?app (deps_of ?app ?a [Result_Tuple ''a''])
              (deps_of ?app ?a [Result_Tuple ''a'']) 3 (effective_propagate True ?a) = Inr [Success 1]"
    by (simp add: example_defs)
  have dl: "delay ?app (resolved ?app ?a) [Success 1] = Some (Exception ''boom'')"
    by (simp add: example_defs)
  show ?thesis
    using dispatch_error_converted [OF res rdy jn dl] rdy dl by (simp add: example_defs)
qed

section \<open>The chain of attempts of one chord\<close>

lemma unlock_chord_raised_no_dispatch:
  "fst (unlock_chord dp app a) = Raised x \<Longrightarrow> filter is_dispatch (snd (unlock_chord dp app a)) = []"
  using unlock_chord_raised_no_terminal [of dp app a x]
  by (simp add: filter_empty_conv terminal_action_def)

lemma unlock_chord_raised_no_report:
  "fst (unlock_chord dp app a) = Raised x \<Longrightarrow> filter is_report (snd (unlock_chord dp app a)) = []"
  using unlock_chord_raised_no_terminal [of dp app a x]
  by (simp add: filter_empty_conv terminal_action_def)

lemma chord_lifetime_step:
  "chord_lifetime dp a r (w # ws) =
     unlock_chord dp (celery_app w r) a #
     (case fst (unlock_chord dp (celery_app w r) a) of
        Raised (Retry r' c) \<Rightarrow> chord_lifetime dp a r' ws
      | _ \<Rightarrow> [])"
  by (simp add: Let_def)

lemma chord_lifetime_one_dispatch:
  "length (filter is_dispatch (concat (map snd (chord_lifetime dp a r ws)))) \<le> 1"
proof (induction ws arbitrary: r)
  case Nil
  show ?case by simp
next
  case (Cons w ws)
  show ?case
  proof (cases "fst (unlock_chord dp (celery_app w r) a)")
    case Returned
    then show ?thesis
      using unlock_chord_one_dispatch [of dp "celery_app w r" a]
      by (simp add: chord_lifetime_step del: chord_lifetime.simps)
  next
    case (Raised x)
    show ?thesis
    proof (cases x)
      case (Retry r' c)
      with Raised show ?thesis
        using Cons.IH [of r']
        by (simp add: chord_lifetime_step unlock_chord_raised_no_dispatch del: chord_lifetime.simps)
    next
      case MaxRetriesExceededError
      with Raised show ?thesis
        using unlock_chord_one_dispatch [of dp "celery_app w r" a]
      by (simp add: chord_lifetime_step del: chord_lifetime.simps)
    next
      case TypeError
      with Raised show ?thesis
        using unlock_chord_one_dispatch [of dp "celery_app w r" a]
      by (simp add: chord_lifetime_step del: chord_lifetime.simps)
    qed
  qed
qed

lemma chord_lifetime_one_report:
  "length (filter is_report (concat (map snd (chord_lifetime dp a r ws)))) \<le> 1"
proof (induction ws arbitrary: r)
  case Nil
  show ?case by simp
next
  case (Cons w ws)
  show ?case
  proof (cases "fst (unlock_chord dp (celery_app w r) a)")
    case Returned
    then show ?thesis
      using unlock_chord_one_report [of dp "celery_app w r" a]
      by (simp add: chord_lifetime_step del: chord_lifetime.simps)
  next
    case (Raised x)
    show ?thesis
    proof (cases x)
      case (Retry r' c)
      with Raised show ?thesis
        using Cons.IH [of r']
        by (simp add: chord_lifetime_step unlock_chord_raised_no_report del: chord_lifetime.simps)
    next
      case MaxRetriesExceededError
      with Raised show ?thesis
        using unlock_chord_one_report [of dp "celery_app w r" a]
      by (simp add: chord_lifetime_step del: chord_lifetime.simps)
    next
      case TypeError
      with Raised show ?thesis
        using unlock_chord_one_report [of dp "celery_app w r" a]
      by (simp add: chord_lifetime_step del: chord_lifetime.simps)
    qed
  qed
qed

lemma chord_lifetime_terminal_last:
  "filter terminal_action (concat (map snd (butlast (chord_lifetime dp a r ws)))) = []"
proof (induction ws arbitrary: r)
  case Nil
  show ?case by simp
next
  case (Cons w ws)
  show ?case
  proof (cases "fst (unlock_chord dp (celery_app w r) a)")
    case Returned
    then show ?thesis
      by (simp add: chord_lifetime_step del: chord_lifetime.simps)
  next
    case (Raised x)
    show ?thesis
    proof (cases x)
      case (Retry r' c)
      with Raised show ?thesis
        using Cons.IH [of r'] unlock_chord_raised_no_terminal [of dp "celery_app w r" a x]
        by (simp add: chord_lifetime_step del: chord_lifetime.simps)
    next
      case MaxRetriesExceededError
      with Raised show ?thesis
        by (simp add: chord_lifetime_step del: chord_lifetime.simps)
    next
      case TypeError
      with Raised show ?thesis
        by (simp add: chord_lifetime_step del: chord_lifetime.simps)
    qed
  qed
qed

text \<open>
  Claim C1, as amended. Along the chain of attempts that the retries of one chord
  schedule, whatever worlds the attempts find, \<^verbatim>\<open>callback.delay\<close> is called at most once
  and \<^verbatim>\<open>chord_error_from_stack\<close> at most once, and no attempt but the last one of the
  chain takes a terminal action: an attempt that took one schedules no further
  attempt.
\<close>

theorem retry_chain_terminal_once:
  "length (filter is_dispatch (concat (map snd (chord_lifetime dp a r ws)))) \<le> 1 \<and>
   length (filter is_report (concat (map snd (chord_lifetime dp a r ws)))) \<le> 1 \<and>
   filter terminal_action (concat (map snd (butlast (chord_lifetime dp a r ws)))) = []"
  by (simp only: chord_lifetime_one_dispatch chord_lifetime_one_report chord_lifetime_terminal_last simp_thms)

theorem retry_chain_terminal_once_witness:
  "length (chord_lifetime True (chord_of [''a'', ''b''] None None) 0
             [pending_world, pending_world, done_world, done_world]) = 3 \<and>
   length (filter is_dispatch (concat (map snd
     (chord_lifetime True (chord_of [''a'', ''b''] None None) 0
        [pending_world, pending_world, done_world, done_world])))) \<le> 1 \<and>
   length (filter is_report (concat (map snd
     (chord_lifetime True (chord_of [''a'', ''b''] None None) 0
        [pending_world, pending_world, done_world, done_world])))) \<le> 1 \<and>
   filter terminal_action (concat (map snd (butlast
     (chord_lifetime True (chord_of [''a'', ''b''] None None) 0
        [pending_world, pending_world, done_world, done_world])))) = []"
proof -
  have len: "length (chord_lifetime True (chord_of [''a'', ''b''] None None) 0
               [pending_world, pending_world, done_world, done_world]) = 3"
    by (simp add: example_defs unlock_chord_def Let_def)
  show ?thesis
    using retry_chain_terminal_once [of True "chord_of [''a'', ''b''] None None" 0
        "[pending_world, pending_world, done_world, done_world]"] len
    by (simp del: chord_lifetime.simps)
qed

text \<open>
  Claim C1 as stated fails. The task keeps nothing about a group id between
  invocations: invoked again on a group that is still ready, after an invocation that
  returned, it dispatches the callback a second time. And within one invocation the
  dispatch and the error report both occur when the submission raises.
\<close>

theorem reinvocation_dispatches_again:
  "fst (unlock_chord True (celery_app done_world 0) (chord_of [''a'', ''b''] None None)) = Returned \<and>
   length (filter terminal_action
     (snd (unlock_chord True (celery_app done_world 0) (chord_of [''a'', ''b''] None None)) @
      snd (unlock_chord True (celery_app done_world 0) (chord_of [''a'', ''b''] None None)))) = 2 \<and>
   length (filter terminal_action
     (snd (unlock_chord True (celery_app failing_transport_world 0) (chord_of [''a''] None None)))) = 2"
  by (simp add: example_defs unlock_chord_def Let_def)

section \<open>The joined list\<close>

text \<open>Both joins return the stored outcomes of the members, in member order.\<close>

lemma join_members_order:
  "join_members w remaining p hs = Inr os \<Longrightarrow> map Some os = map (\<lambda>h. state_of w (id_of h)) hs"
proof (induction hs arbitrary: remaining os)
  case Nil
  then show ?case by simp
next
  case (Cons h hs)
  then show ?case
    by (auto split: if_splits option.splits outcome.splits sum.splits)
qed

lemma collect_order:
  "collect w p hs = Inr os \<Longrightarrow> map Some os = map (\<lambda>h. state_of w (id_of h)) hs"
proof (induction hs arbitrary: os)
  case Nil
  then show ?case by simp
next
  case (Cons h hs)
  then show ?case
    by (auto split: if_splits option.splits outcome.splits sum.splits)
qed

lemma celery_join_order:
  assumes "selected_join (celery_app w r) deps deps timeout p = Inr os"
  shows "map Some os = map (\<lambda>h. state_of w (id_of h)) (results deps)"
  using assms
  by (auto simp: celery_app_def ResultSet_join_def ResultSet_join_native_def
           dest: join_members_order collect_order split: if_splits)

lemma id_of_celery_result_from_tuple:
  "id_of (celery_result_from_tuple t) = tuple_id t"
  by (cases t) simp

lemma celery_deps_of:
  "deps_of (celery_app w r) a rs = celery_deps a rs"
  by (simp add: celery_app_def)

text \<open>
  Claim C4. On a ready group whose join returns, with or without propagate, the
  invocation returns and dispatches the callback once, with the list the join
  returned. That list has exactly one outcome per member of the serialized group, the
  outcome stored for that member, in the order of the serialized group; a failed
  member is in the list as its failure when propagate is off. The statement holds of
  every world, whatever the completion stamps of the members.
\<close>

theorem callback_receives_member_order:
  assumes "result a = Some rs"
    and "ResultSet_ready w (celery_deps a rs)"
    and "selected_join (celery_app w r) (celery_deps a rs) (celery_deps a rs) 3
           (effective_propagate dp a) = Inr os"
  shows "fst (unlock_chord dp (celery_app w r) a) = Returned \<and>
         filter is_dispatch (snd (unlock_chord dp (celery_app w r) a)) =
           [Delay (canvas_maybe_signature (callback a)) os] \<and>
         map Some os = map (\<lambda>t. state_of w (tuple_id t)) rs \<and>
         length os = length rs"
proof -
  let ?app = "celery_app w r"
  have rdy: "ready ?app (deps_of ?app a rs)"
    using assms(2) by (simp add: celery_app_def)
  have jn: "selected_join ?app (deps_of ?app a rs) (deps_of ?app a rs) 3 (effective_propagate dp a) = Inr os"
    using assms(3) by (simp add: celery_deps_of)
  have cb: "resolved ?app a = canvas_maybe_signature (callback a)"
    by (cases "callback a") (simp_all add: celery_app_def)
  have ord: "map Some os = map (\<lambda>t. state_of w (tuple_id t)) rs"
    using celery_join_order [OF jn]
    by (simp add: celery_deps_of comp_def id_of_celery_result_from_tuple)
  have len: "length os = length rs"
    using arg_cong [OF ord, of length] by simp
  have run: "fst (unlock_chord dp ?app a) = Returned \<and>
             filter is_dispatch (snd (unlock_chord dp ?app a)) = [Delay (resolved ?app a) os]"
  proof (cases "delay ?app (resolved ?app a) os")
    case None
    show ?thesis
      by (simp add: unlock_chord_dispatched [OF assms(1) rdy jn None])
  next
    case (Some e)
    show ?thesis
      by (simp add: unlock_chord_dispatch_raised [OF assms(1) rdy jn Some])
  qed
  show ?thesis
    using run ord len by (simp only: cb simp_thms)
qed

theorem callback_receives_member_order_witness:
  "ResultSet_ready mixed_world
     (celery_deps (chord_of [''a'', ''b'', ''c''] (Some False) None)
        [Result_Tuple ''a'', Result_Tuple ''b'', Result_Tuple ''c'']) \<and>
   join (celery_app mixed_world 0)
     (GroupResult ''g'' [AsyncResult ''a'', AsyncResult ''b'', AsyncResult ''c'']) 3 False =
     Inr [Success 1, Failure (Exception ''x''), Success 2] \<and>
   date_done mixed_world ''c'' < date_done mixed_world ''a'' \<and>
   date_done mixed_world ''a'' < date_done mixed_world ''b'' \<and>
   fst (unlock_chord True (celery_app mixed_world 0) (chord_of [''a'', ''b'', ''c''] (Some False) None)) =
     Returned \<and>
   filter is_dispatch
     (snd (unlock_chord True (celery_app mixed_world 0) (chord_of [''a'', ''b'', ''c''] (Some False) None))) =
     [Delay (Signature ''body'') [Success 1, Failure (Exception ''x''), Success 2]] \<and>
   map Some [Success 1, Failure (Exception ''x''), Success 2] =
     [state_of mixed_world ''a'', state_of mixed_world ''b'', state_of mixed_world ''c'']"
proof -
  let ?a = "chord_of [''a'', ''b'', ''c''] (Some False) None"
  let ?rs = "[Result_Tuple ''a'', Result_Tuple ''b'', Result_Tuple ''c'']"
  have res: "result ?a = Some ?rs"
    by (simp add: chord_of_def)
  have rdy: "ResultSet_ready mixed_world (celery_deps ?a ?rs)"
    by (simp add: example_defs)
  have jn0: "join (celery_app mixed_world 0)
               (GroupResult ''g'' [AsyncResult ''a'', AsyncResult ''b'', AsyncResult ''c'']) 3 False =
             Inr [Success 1, Failure (Exception ''x''), Success 2]"
    by (simp add: example_defs)
  have jn: "selected_join (celery_app mixed_world 0) (celery_deps ?a ?rs) (celery_deps ?a ?rs) 3
              (effective_propagate True ?a) = Inr [Success 1, Failure (Exception ''x''), Success 2]"
    by (simp add: example_defs)
  have dd: "date_done mixed_world ''c'' < date_done mixed_world ''a'' \<and>
            date_done mixed_world ''a'' < date_done mixed_world ''b''"
    by (simp add: example_defs)
  have cb: "callback ?a = Dict ''body''"
    by (simp add: chord_of_def)
  show ?thesis
    using callback_receives_member_order [OF res rdy jn] rdy jn0 dd by (simp add: cb)
qed

section \<open>The join and its timeout\<close>

text \<open>
  A generic join that returns stayed within its timeout; without propagate the only
  error it raises is the timeout.
\<close>

lemma join_members_budget:
  "join_members w remaining p hs = Inr os \<Longrightarrow> 0 \<le> remaining \<Longrightarrow>
   sum_list (map (\<lambda>h. fetch_time w (id_of h)) hs) \<le> remaining"
proof (induction hs arbitrary: remaining os)
  case Nil
  then show ?case by simp
next
  case (Cons h hs)
  from Cons.prems(1) obtain os' where
    fits: "\<not> remaining < fetch_time w (id_of h)" and
    rest: "join_members w (remaining - fetch_time w (id_of h)) p hs = Inr os'"
    by (auto split: if_splits option.splits outcome.splits sum.splits)
  from fits have "0 \<le> remaining - fetch_time w (id_of h)"
    by simp
  from Cons.IH [OF rest this] show ?case by simp
qed

lemma join_members_error:
  "join_members w remaining False hs = Inl e \<Longrightarrow> e = JoinTimeout"
  by (induction hs arbitrary: remaining)
     (auto split: if_splits option.splits outcome.splits sum.splits)

lemma celery_join_exceeds:
  assumes "fetch_exceeds w deps timeout" and "0 \<le> timeout"
  shows "isl (selected_join (celery_app w r) deps deps timeout p) \<and>
         (\<not> p \<longrightarrow> selected_join (celery_app w r) deps deps timeout p = Inl JoinTimeout)"
proof (cases "native w")
  case True
  with assms show ?thesis
    by (simp add: fetch_exceeds_def celery_app_def ResultSet_join_native_def)
next
  case False
  with assms have over: "timeout < sum_list (map (\<lambda>h. fetch_time w (id_of h)) (results deps))"
    by (simp add: fetch_exceeds_def)
  have err: "isl (join_members w timeout p (results deps))"
  proof (cases "join_members w timeout p (results deps)")
    case (Inl e)
    then show ?thesis by simp
  next
    case (Inr os)
    from join_members_budget [OF Inr assms(2)] over show ?thesis by simp
  qed
  have "join_members w timeout False (results deps) = Inl JoinTimeout" if "\<not> p"
  proof -
    from err that obtain e where e: "join_members w timeout False (results deps) = Inl e"
      by (cases "join_members w timeout False (results deps)") auto
    from join_members_error [OF e] e show ?thesis by simp
  qed
  with err False show ?thesis
    by (auto simp: celery_app_def ResultSet_join_def)
qed

text \<open>
  Claim C7. On a ready group the task calls one join, the native one exactly when the
  group result supports it and the generic one otherwise, with the timeout 3 and the
  effective propagate flag. Whenever that join raises, the invocation returns,
  dispatches nothing and reports one error. With the joins as modelled, a value fetch
  that exceeds 3 makes the join raise, and without propagate what it raises is the
  timeout error.
\<close>

theorem join_choice_and_timeout:
  assumes "result a = Some rs" and "ready app (deps_of app a rs)"
  shows "filter is_join (snd (unlock_chord dp app a)) =
           [Join_Call (selected_kind app (deps_of app a rs)) (deps_of app a rs) 3 (effective_propagate dp a)] \<and>
         (isl (selected_join app (deps_of app a rs) (deps_of app a rs) 3 (effective_propagate dp a)) \<longrightarrow>
            fst (unlock_chord dp app a) = Returned \<and>
            filter is_dispatch (snd (unlock_chord dp app a)) = [] \<and>
            length (filter is_report (snd (unlock_chord dp app a))) = 1) \<and>
         (app = celery_app w r \<and> fetch_exceeds w (celery_deps a rs) 3 \<longrightarrow>
            isl (selected_join app (deps_of app a rs) (deps_of app a rs) 3 (effective_propagate dp a)) \<and>
            (\<not> effective_propagate dp a \<longrightarrow>
               selected_join app (deps_of app a rs) (deps_of app a rs) 3 (effective_propagate dp a)
                 = Inl JoinTimeout))"
proof (intro conjI impI)
  show "filter is_join (snd (unlock_chord dp app a)) =
          [Join_Call (selected_kind app (deps_of app a rs)) (deps_of app a rs) 3 (effective_propagate dp a)]"
  proof (cases rule: unlock_chord_cases [where a = a and app = app and dp = dp])
    case no_result
    with assms show ?thesis by simp
  next
    case (not_ready rs')
    with assms show ?thesis by simp
  next
    case (join_raised rs' e)
    with assms show ?thesis by (simp add: unlock_chord_join_raised)
  next
    case (dispatched rs' ret)
    with assms show ?thesis by (simp add: unlock_chord_dispatched)
  next
    case (dispatch_raised rs' ret e)
    with assms show ?thesis by (simp add: unlock_chord_dispatch_raised)
  qed
next
  assume err: "isl (selected_join app (deps_of app a rs) (deps_of app a rs) 3 (effective_propagate dp a))"
  then obtain e where e: "selected_join app (deps_of app a rs) (deps_of app a rs) 3 (effective_propagate dp a) = Inl e"
    by (cases "selected_join app (deps_of app a rs) (deps_of app a rs) 3 (effective_propagate dp a)") auto
  show "fst (unlock_chord dp app a) = Returned"
    by (simp add: unlock_chord_join_raised [OF assms e])
  show "filter is_dispatch (snd (unlock_chord dp app a)) = []"
    by (simp add: unlock_chord_join_raised [OF assms e])
  show "length (filter is_report (snd (unlock_chord dp app a))) = 1"
    by (simp add: unlock_chord_join_raised [OF assms e])
next
  assume h: "app = celery_app w r \<and> fetch_exceeds w (celery_deps a rs) 3"
  then have app: "app = celery_app w r"
    and ex: "fetch_exceeds w (deps_of (celery_app w r) a rs) 3"
    by (simp_all add: celery_deps_of)
  have J: "isl (selected_join (celery_app w r) (deps_of (celery_app w r) a rs)
                  (deps_of (celery_app w r) a rs) 3 (effective_propagate dp a)) \<and>
           (\<not> effective_propagate dp a \<longrightarrow>
              selected_join (celery_app w r) (deps_of (celery_app w r) a rs)
                (deps_of (celery_app w r) a rs) 3 (effective_propagate dp a) = Inl JoinTimeout)"
    by (rule celery_join_exceeds [OF ex]) simp
  show "isl (selected_join app (deps_of app a rs) (deps_of app a rs) 3 (effective_propagate dp a))"
    unfolding app by (rule conjunct1 [OF J])
  assume "\<not> effective_propagate dp a"
  with J show "selected_join app (deps_of app a rs) (deps_of app a rs) 3 (effective_propagate dp a)
                 = Inl JoinTimeout"
    unfolding app by blast
qed

theorem join_choice_and_timeout_witness:
  "ready (celery_app slow_world 0)
     (deps_of (celery_app slow_world 0) (chord_of [''a'', ''b''] (Some False) None)
        [Result_Tuple ''a'', Result_Tuple ''b'']) \<and>
   fetch_exceeds slow_world
     (celery_deps (chord_of [''a'', ''b''] (Some False) None) [Result_Tuple ''a'', Result_Tuple ''b'']) 3 \<and>
   filter is_join (snd (unlock_chord True (celery_app slow_world 0) (chord_of [''a'', ''b''] (Some False) None))) =
     [Join_Call Generic (GroupResult ''g'' [AsyncResult ''a'', AsyncResult ''b'']) 3 False] \<and>
   join (celery_app slow_world 0) (GroupResult ''g'' [AsyncResult ''a'', AsyncResult ''b'']) 3 False =
     Inl JoinTimeout \<and>
   fst (unlock_chord True (celery_app slow_world 0) (chord_of [''a'', ''b''] (Some False) None)) = Returned \<and>
   filter is_dispatch
     (snd (unlock_chord True (celery_app slow_world 0) (chord_of [''a'', ''b''] (Some False) None))) = [] \<and>
   length (filter is_report
     (snd (unlock_chord True (celery_app slow_world 0) (chord_of [''a'', ''b''] (Some False) None)))) = 1"
proof -
  let ?a = "chord_of [''a'', ''b''] (Some False) None"
  let ?rs = "[Result_Tuple ''a'', Result_Tuple ''b'']"
  let ?app = "celery_app slow_world 0 :: int app"
  have res: "result ?a = Some ?rs"
    by (simp add: chord_of_def)
  have rdy: "ready ?app (deps_of ?app ?a ?rs)"
    by (simp add: slow_world_def example_defs)
  have ex: "fetch_exceeds slow_world (celery_deps ?a ?rs) 3"
    by (simp add: fetch_exceeds_def slow_world_def example_defs)
  have nat: "\<not> supports_native_join ?app (deps_of ?app ?a ?rs)"
    by (simp add: slow_world_def example_defs)
  have gid: "group_id ?a = ''g''"
    by (simp add: chord_of_def)
  have rft: "result_from_tuple ?app = celery_result_from_tuple"
    by (simp add: celery_app_def)
  have p: "\<not> effective_propagate True ?a"
    by (simp add: chord_of_def)
  show ?thesis
    using join_choice_and_timeout [OF res rdy, of True slow_world 0] rdy ex nat p
    by (simp add: gid rft)
qed

section \<open>The propagate flag\<close>

text \<open>
  Claim C8. The task created at one moment and invoked at another behaves as
  \<^verbatim>\<open>unlock_chord\<close> does when it is given the flag explicitly: the \<^verbatim>\<open>propagate\<close> argument if
  there is one, and otherwise the \<^verbatim>\<open>CELERY_CHORD_PROPAGATES\<close> of the configuration as it
  was when the task was created. The configuration at the time of the invocation is
  not read. On a ready group that flag is the one the join is called with.
\<close>

theorem propagate_default_fixed:
  "add_unlock_chord_task app0 app a =
     unlock_chord dp' app
       (a\<lparr>propagate := Some (case propagate a of
                                None \<Rightarrow> CELERY_CHORD_PROPAGATES (conf app0)
                              | Some p \<Rightarrow> p)\<rparr>) \<and>
   add_unlock_chord_task app0 (app\<lparr>conf := c\<rparr>) a = add_unlock_chord_task app0 app a \<and>
   (case result a of
      None \<Rightarrow> True
    | Some rs \<Rightarrow>
        filter is_join (snd (add_unlock_chord_task app0 app a)) =
          (if ready app (deps_of app a rs)
           then [Join_Call (selected_kind app (deps_of app a rs)) (deps_of app a rs) 3
                   (case propagate a of
                      None \<Rightarrow> CELERY_CHORD_PROPAGATES (conf app0)
                    | Some p \<Rightarrow> p)]
           else []))"
  by (simp add: add_unlock_chord_task_def unlock_chord_def Let_def split: option.splits sum.splits)

theorem propagate_default_fixed_witness:
  "CELERY_CHORD_PROPAGATES (conf (celery_app lenient_world 0)) = False \<and>
   CELERY_CHORD_PROPAGATES (conf (celery_app mixed_world 0)) = True \<and>
   filter is_join
     (snd (add_unlock_chord_task (celery_app lenient_world 0) (celery_app mixed_world 0)
             (chord_of [''a'', ''b'', ''c''] None None))) =
     [Join_Call Generic (GroupResult ''g'' [AsyncResult ''a'', AsyncResult ''b'', AsyncResult ''c'']) 3 False] \<and>
   filter is_join
     (snd (add_unlock_chord_task (celery_app lenient_world 0) (celery_app mixed_world 0)
             (chord_of [''a'', ''b'', ''c''] (Some True) None))) =
     [Join_Call Generic (GroupResult ''g'' [AsyncResult ''a'', AsyncResult ''b'', AsyncResult ''c'']) 3 True]"
proof -
  have c0: "CELERY_CHORD_PROPAGATES (conf (celery_app lenient_world 0)) = False"
    by (simp add: lenient_world_def celery_app_def)
  have c1: "CELERY_CHORD_PROPAGATES (conf (celery_app mixed_world 0)) = True"
    by (simp add: mixed_world_def world_of_def celery_app_def)
  have rdy: "ready (celery_app mixed_world 0)
               (GroupResult ''g'' [AsyncResult ''a'', AsyncResult ''b'', AsyncResult ''c''])"
    by (simp add: example_defs)
  have nat: "\<not> supports_native_join (celery_app mixed_world 0)
               (GroupResult ''g'' [AsyncResult ''a'', AsyncResult ''b'', AsyncResult ''c''])"
    by (simp add: example_defs)
  have rft: "result_from_tuple (celery_app mixed_world 0) = celery_result_from_tuple"
    by (simp add: celery_app_def)
  show ?thesis
    using propagate_default_fixed [of "celery_app lenient_world 0" "celery_app mixed_world 0"
        "chord_of [''a'', ''b'', ''c''] None None"]
      propagate_default_fixed [of "celery_app lenient_world 0" "celery_app mixed_world 0"
        "chord_of [''a'', ''b'', ''c''] (Some True) None"]
      c0 c1 rdy nat
    by (simp add: chord_of_def rft)
qed

section \<open>The callback signature\<close>

lemma canvas_maybe_signature_idem:
  "canvas_maybe_signature (canvas_maybe_signature c) = canvas_maybe_signature c"
  by (cases c) simp_all

lemma maybe_signature_celery_app:
  "maybe_signature (celery_app w r) = canvas_maybe_signature"
  by (simp add: celery_app_def)

lemma ready_celery_app:
  "ready (celery_app w r) = ResultSet_ready w"
  by (simp add: celery_app_def)

text \<open>
  Claim C9, as amended. A poll attempt resolves the callback once before it checks
  readiness and, when the group is ready, a second time before the join: once on an
  attempt that finds the group not ready, twice on one that finds it ready. The
  resolution is idempotent, so the signature that is dispatched or reported on is the
  one a single resolution gives; and it is a function of the callback alone, the same
  in every world.
\<close>

theorem callback_resolved_twice_when_ready:
  assumes "result a = Some rs"
  shows "filter is_resolve (snd (unlock_chord dp (celery_app w r) a)) =
           (if ResultSet_ready w (celery_deps a rs)
            then [Maybe_Signature (callback a), Maybe_Signature (canvas_maybe_signature (callback a))]
            else [Maybe_Signature (callback a)]) \<and>
         canvas_maybe_signature (canvas_maybe_signature c) = canvas_maybe_signature c \<and>
         resolved (celery_app w r) a = canvas_maybe_signature (callback a) \<and>
         maybe_signature (celery_app w r) = maybe_signature (celery_app w' r')"
proof -
  note ms = maybe_signature_celery_app
  note rd = ready_celery_app
  have tr: "filter is_resolve (snd (unlock_chord dp (celery_app w r) a)) =
           (if ResultSet_ready w (celery_deps a rs)
            then [Maybe_Signature (callback a), Maybe_Signature (canvas_maybe_signature (callback a))]
            else [Maybe_Signature (callback a)])"
  proof (cases rule: unlock_chord_cases [where a = a and app = "celery_app w r" and dp = dp])
    case no_result
    with assms show ?thesis by simp
  next
    case (not_ready rs')
    with assms show ?thesis by (simp add: unlock_chord_not_ready rd celery_deps_of)
  next
    case (join_raised rs' e)
    with assms show ?thesis by (simp add: unlock_chord_join_raised rd ms celery_deps_of)
  next
    case (dispatched rs' ret)
    with assms show ?thesis by (simp add: unlock_chord_dispatched rd ms celery_deps_of)
  next
    case (dispatch_raised rs' ret e)
    with assms show ?thesis by (simp add: unlock_chord_dispatch_raised rd ms celery_deps_of)
  qed
  show ?thesis
    by (simp only: tr canvas_maybe_signature_idem ms simp_thms)
qed

theorem callback_resolved_twice_when_ready_witness:
  "ResultSet_ready done_world (celery_deps (chord_of [''a'', ''b''] None None) [Result_Tuple ''a'', Result_Tuple ''b'']) \<and>
   filter is_resolve (snd (unlock_chord True (celery_app done_world 0) (chord_of [''a'', ''b''] None None))) =
     [Maybe_Signature (Dict ''body''), Maybe_Signature (Signature ''body'')] \<and>
   \<not> ResultSet_ready pending_world (celery_deps (chord_of [''a'', ''b''] None None) [Result_Tuple ''a'', Result_Tuple ''b'']) \<and>
   filter is_resolve (snd (unlock_chord True (celery_app pending_world 0) (chord_of [''a'', ''b''] None None))) =
     [Maybe_Signature (Dict ''body'')]"
proof -
  let ?a = "chord_of [''a'', ''b''] None None"
  let ?rs = "[Result_Tuple ''a'', Result_Tuple ''b'']"
  have res: "result ?a = Some ?rs"
    by (simp add: chord_of_def)
  have rdy: "ResultSet_ready done_world (celery_deps ?a ?rs)"
    by (simp add: example_defs)
  have nrdy: "\<not> ResultSet_ready pending_world (celery_deps ?a ?rs)"
    by (simp add: example_defs)
  have cb: "callback ?a = Dict ''body''"
    by (simp add: chord_of_def)
  show ?thesis
    using callback_resolved_twice_when_ready [OF res, where dp = True and w = done_world and r = 0
        and c = "Dict ''body''" and w' = done_world and r' = 0]
      callback_resolved_twice_when_ready [OF res, where dp = True and w = pending_world and r = 0
        and c = "Dict ''body''" and w' = done_world and r' = 0] rdy nrdy
    by (simp add: cb)
qed

text \<open>
  Claim C9 as stated fails on a ready group: lines 66 and 74 both resolve the
  callback.
\<close>

theorem ready_attempt_resolves_twice:
  "ready (celery_app done_world 0)
     (deps_of (celery_app done_world 0) (chord_of [''a'', ''b''] None None)
        [Result_Tuple ''a'', Result_Tuple ''b'']) \<and>
   length (filter is_resolve
     (snd (unlock_chord True (celery_app done_world 0) (chord_of [''a'', ''b''] None None)))) = 2"
  by (simp add: example_defs unlock_chord_def Let_def)

section \<open>The empty group\<close>

text \<open>
  Claim C10. With an empty serialized result list the group is ready on the first
  invocation: the invocation returns without calling \<^verbatim>\<open>retry\<close>, joins, and dispatches the
  callback with the empty list (going on to the report of a callback error only if
  that submission raises).
\<close>

theorem empty_group_dispatches:
  assumes "result a = Some []"
  shows "unlock_chord dp (celery_app w r) a =
           (Returned,
            [Maybe_Signature (callback a),
             Ready_Check (GroupResult (group_id a) []),
             Maybe_Signature (canvas_maybe_signature (callback a)),
             Join_Call (if native w then Native else Generic) (GroupResult (group_id a) []) 3
               (effective_propagate dp a),
             Delay (canvas_maybe_signature (callback a)) []] @
            (case submit w (canvas_maybe_signature (callback a)) [] of
               None \<Rightarrow> []
             | Some e \<Rightarrow>
                 [Log_Error (group_id a) e,
                  Chord_Error_From_Stack (canvas_maybe_signature (callback a))
                    (ChordError (''Callback error: '' @ repr e))]))"
  using assms
  by (simp add: unlock_chord_def Let_def celery_app_def ResultSet_ready_def ResultSet_join_def
      ResultSet_join_native_def canvas_maybe_signature_idem split: option.splits)

theorem empty_group_dispatches_witness:
  "unlock_chord True (celery_app done_world 0) (chord_of [] None (Some 0)) =
     (Returned,
      [Maybe_Signature (Dict ''body''),
       Ready_Check (GroupResult ''g'' []),
       Maybe_Signature (Signature ''body''),
       Join_Call Generic (GroupResult ''g'' []) 3 True,
       Delay (Signature ''body'') []])"
proof -
  have res: "result (chord_of [] None (Some 0)) = Some []"
    by (simp add: chord_of_def)
  show ?thesis
    using empty_group_dispatches [OF res, of True done_world 0]
    by (simp add: done_world_def world_of_def chord_of_def)
qed

end
